theory Spec2Isabelle
  imports Main "HOL-Library.Word" "HOL-Library.AList"
begin

section \<open>Data model\<close>

text \<open>
  The block disk store of \<^verbatim>\<open>libkbfs/block_disk_store.go\<close> keeps one directory per
  block under \<^verbatim>\<open>dir/XXXX/YYYY...\<close> with the files \<^verbatim>\<open>id\<close>, \<^verbatim>\<open>data\<close>,
  \<^verbatim>\<open>ksh\<close> and \<^verbatim>\<open>refs\<close>. A \<^verbatim>\<open>BlockID\<close> is represented by its printable form
  (\<^verbatim>\<open>id.String()\<close>, a hex string), which is all the store uses of it.
\<close>

type_synonym bytes = "8 word list"

type_synonym BlockID = string

text \<open>
  \<^verbatim>\<open>BlockContext{creator, writer, refNonce}\<close>, as the test file builds it
  (\<^verbatim>\<open>BlockContext{uid1, "", ZeroBlockRefNonce}\<close>).
\<close>

datatype BlockContext = BlockContext (Creator: string) (Writer: string) (RefNonce: bytes)

datatype BlockCryptKeyServerHalf = BlockCryptKeyServerHalf (keyData: bytes)

datatype blockRefStatus = liveBlockRef | archivedBlockRef

datatype blockRefEntry = blockRefEntry (Status: blockRefStatus) (Tag: string)

text \<open>
  A Go map from contexts to entries, kept as an association list that is only read
  through \<open>map_of\<close> and only changed through \<open>AList.update\<close> and \<open>AList.delete\<close>;
  \<^verbatim>\<open>len(refs)\<close> is its length.
\<close>

type_synonym blockRefMap = "(BlockContext \<times> blockRefEntry) list"

datatype blockRefInfo = blockRefInfo (Refs: blockRefMap)

text \<open>The files of one block directory; \<open>None\<close> is a missing file.\<close>

record blockDir =
  idFile :: "string option"
  dataFile :: "bytes option"
  kshFile :: "bytes option"
  refsFile :: "blockRefInfo option"

text \<open>
  The tree under the store's root: splayed directories (the first four characters of
  the ID), each holding block directories (the next thirty characters).
\<close>

type_synonym disk = "string \<rightharpoonup> (string \<rightharpoonup> blockDir)"

text \<open>
  The calls the store makes to the operating system; \<open>ioFails\<close> below says which of
  them fail, in the run under consideration, with an error other than "file does not
  exist".
\<close>

datatype ioOp =
    opMkdirAll | opWriteId | opWriteData | opWriteKsh | opWriteRefs
  | opReadData | opReadKsh | opReadRefs | opRemoveAll | opRemoveParent

datatype error =
    blockNonExistentError BlockID
  | blockIDMismatchError BlockID BlockID
  | keyServerHalfMismatchError BlockCryptKeyServerHalf BlockCryptKeyServerHalf
  | removeReferencedError BlockID
  | errNotExist
  | errNotEmpty
  | ioError ioOp
  | cryptoError string
  | sliceBoundsPanic

text \<open>
  The store's collaborators. \<^verbatim>\<open>crypto.MakePermanentBlockID\<close> and the server half's
  \<^verbatim>\<open>MarshalBinary\<close>/\<^verbatim>\<open>UnmarshalBinary\<close> live outside the store and are parameters;
  each may fail with a message. The \<^verbatim>\<open>codec\<close> is represented by the typed \<open>refsFile\<close>,
  the root \<^verbatim>\<open>dir\<close> by the \<open>disk\<close> itself.
\<close>

record blockDiskStore =
  MakePermanentBlockID :: "bytes \<Rightarrow> string + BlockID"
  MarshalBinary :: "BlockCryptKeyServerHalf \<Rightarrow> string + bytes"
  UnmarshalBinary :: "bytes \<Rightarrow> string + BlockCryptKeyServerHalf"
  ioFails :: "ioOp \<Rightarrow> bool"

section \<open>The reference map\<close>

text \<open>
  Modelled from the spec: the methods of \<^verbatim>\<open>blockRefMap\<close> (\<^verbatim>\<open>checkExists\<close>, \<^verbatim>\<open>put\<close>,
  \<^verbatim>\<open>remove\<close>) are called by the store but are not among the source files. Section 4.3
  of the specification: the map is \<^verbatim>\<open>{ctx -> (status, tag)}\<close>; \<^verbatim>\<open>put\<close> overwrites
  status and tag, distinct contexts coexist; \<^verbatim>\<open>checkExists\<close> says whether the context
  is present; \<^verbatim>\<open>remove\<close> is unconditional when the tag is empty, else removes only
  when the stored tag equals the given one, and is a no-op when the context is absent.
  The specification says that \<^verbatim>\<open>checkExists\<close> raises "on conflicting metadata" but
  not what conflicts, and it makes distinct contexts distinct references; so no raising
  condition is modelled and these never return an error, while the callers below still
  handle one as the source does.
\<close>

definition checkExists :: "blockRefMap \<Rightarrow> BlockContext \<Rightarrow> error + bool" where
  "checkExists refs bctx = Inr (map_of refs bctx \<noteq> None)"

definition blockRefMap_put ::
  "blockRefMap \<Rightarrow> BlockContext \<Rightarrow> blockRefStatus \<Rightarrow> string \<Rightarrow> error + blockRefMap" where
  "blockRefMap_put refs bctx status tag = Inr (AList.update bctx (blockRefEntry status tag) refs)"

definition blockRefMap_remove ::
  "blockRefMap \<Rightarrow> BlockContext \<Rightarrow> string \<Rightarrow> error + blockRefMap" where
  "blockRefMap_remove refs bctx tag =
     (case map_of refs bctx of
        None \<Rightarrow> Inr refs
      | Some e \<Rightarrow> if tag = [] \<or> Tag e = tag then Inr (AList.delete bctx refs) else Inr refs)"

section \<open>Paths and files\<close>

text \<open>
  \<^verbatim>\<open>blockPath\<close>: \<^verbatim>\<open>filepath.Join(s.dir, idStr[:4], idStr[4:34])\<close>. The slice
  \<^verbatim>\<open>idStr[4:34]\<close> panics on a string shorter than 34 characters.
\<close>

definition blockPath :: "BlockID \<Rightarrow> (string \<times> string) option" where
  "blockPath bid = (if length bid < 34 then None else Some (take 4 bid, take 30 (drop 4 bid)))"

definition blockDirAt :: "disk \<Rightarrow> string \<times> string \<Rightarrow> blockDir option" where
  "blockDirAt fs p = (case fs (fst p) of None \<Rightarrow> None | Some sd \<Rightarrow> sd (snd p))"

definition setBlockDir :: "disk \<Rightarrow> string \<times> string \<Rightarrow> blockDir \<Rightarrow> disk" where
  "setBlockDir fs p d =
     fs(fst p \<mapsto> (case fs (fst p) of None \<Rightarrow> Map.empty | Some sd \<Rightarrow> sd)(snd p \<mapsto> d))"

definition emptyDir :: blockDir where
  "emptyDir = \<lparr>idFile = None, dataFile = None, kshFile = None, refsFile = None\<rparr>"

text \<open>The content of one file of the block directory of an ID, if both exist.\<close>

definition fileOf :: "(blockDir \<Rightarrow> 'a option) \<Rightarrow> disk \<Rightarrow> BlockID \<Rightarrow> 'a option" where
  "fileOf file fs bid =
     (case blockPath bid of
        None \<Rightarrow> None
      | Some p \<Rightarrow> (case blockDirAt fs p of None \<Rightarrow> None | Some d \<Rightarrow> file d))"

text \<open>
  Reading a file (\<^verbatim>\<open>ioutil.ReadFile\<close>, \<^verbatim>\<open>DeserializeFromFile\<close>): the path is built
  first, then the call fails, or reports a missing file, or returns the content.
\<close>

definition ReadFile ::
  "blockDiskStore \<Rightarrow> ioOp \<Rightarrow> (blockDir \<Rightarrow> 'a option) \<Rightarrow> disk \<Rightarrow> BlockID \<Rightarrow> error + 'a" where
  "ReadFile s opn file fs bid =
     (case blockPath bid of
        None \<Rightarrow> Inl sliceBoundsPanic
      | Some p \<Rightarrow>
          if ioFails s opn then Inl (ioError opn)
          else (case fileOf file fs bid of None \<Rightarrow> Inl errNotExist | Some c \<Rightarrow> Inr c))"

text \<open>
  Writing a file (\<^verbatim>\<open>ioutil.WriteFile\<close>, \<^verbatim>\<open>SerializeToFile\<close>) needs the block
  directory; a failed write leaves the disk as it was.
\<close>

definition WriteFile ::
  "blockDiskStore \<Rightarrow> ioOp \<Rightarrow> (blockDir \<Rightarrow> blockDir) \<Rightarrow> disk \<Rightarrow> BlockID \<Rightarrow> error option \<times> disk" where
  "WriteFile s opn upd fs bid =
     (case blockPath bid of
        None \<Rightarrow> (Some sliceBoundsPanic, fs)
      | Some p \<Rightarrow>
          if ioFails s opn then (Some (ioError opn), fs)
          else (case blockDirAt fs p of
                  None \<Rightarrow> (Some errNotExist, fs)
                | Some d \<Rightarrow> (None, setBlockDir fs p (upd d))))"

section \<open>Reference information\<close>

definition getRefInfo :: "blockDiskStore \<Rightarrow> disk \<Rightarrow> BlockID \<Rightarrow> error + blockRefInfo" where
  "getRefInfo s fs bid =
     (case ReadFile s opReadRefs refsFile fs bid of
        Inl err \<Rightarrow> if err \<noteq> errNotExist then Inl err else Inr (blockRefInfo [])
      | Inr refInfo \<Rightarrow> Inr refInfo)"

definition putRefInfo ::
  "blockDiskStore \<Rightarrow> disk \<Rightarrow> BlockID \<Rightarrow> blockRefInfo \<Rightarrow> error option \<times> disk" where
  "putRefInfo s fs bid refs = WriteFile s opWriteRefs (\<lambda>d. d\<lparr>refsFile := Some refs\<rparr>) fs bid"

section \<open>Removing references\<close>

text \<open>
  The loop of \<^verbatim>\<open>removeReferences\<close>: remove each context in turn, return at the first
  error, and leave the loop as soon as the map is empty.
\<close>

fun removeLoop :: "blockRefMap \<Rightarrow> BlockContext list \<Rightarrow> string \<Rightarrow> error + blockRefMap" where
  "removeLoop refs [] tag = Inr refs"
| "removeLoop refs (bctx # contexts) tag =
     (case blockRefMap_remove refs bctx tag of
        Inl err \<Rightarrow> Inl err
      | Inr refs' \<Rightarrow> if length refs' = 0 then Inr refs' else removeLoop refs' contexts tag)"

definition removeReferences ::
  "blockDiskStore \<Rightarrow> disk \<Rightarrow> BlockID \<Rightarrow> BlockContext list \<Rightarrow> string \<Rightarrow> (error + nat) \<times> disk" where
  "removeReferences s fs bid contexts tag =
     (case getRefInfo s fs bid of
        Inl err \<Rightarrow> (Inl err, fs)
      | Inr refInfo \<Rightarrow>
          if length (Refs refInfo) = 0 then (Inr 0, fs)
          else (case removeLoop (Refs refInfo) contexts tag of
                  Inl err \<Rightarrow> (Inl err, fs)
                | Inr refs' \<Rightarrow>
                    (case putRefInfo s fs bid (blockRefInfo refs') of
                       (Some err, fs') \<Rightarrow> (Inl err, fs')
                     | (None, fs') \<Rightarrow> (Inr (length refs'), fs'))))"

section \<open>Adding references\<close>

text \<open>
  \<^verbatim>\<open>makeDir\<close>: \<^verbatim>\<open>os.MkdirAll\<close> of the block path (creating the splayed parent
  when needed, keeping what exists), then the \<^verbatim>\<open>id\<close> file is written.
\<close>

definition MkdirAll :: "blockDiskStore \<Rightarrow> disk \<Rightarrow> BlockID \<Rightarrow> error option \<times> disk" where
  "MkdirAll s fs bid =
     (case blockPath bid of
        None \<Rightarrow> (Some sliceBoundsPanic, fs)
      | Some p \<Rightarrow>
          if ioFails s opMkdirAll then (Some (ioError opMkdirAll), fs)
          else (None, case blockDirAt fs p of None \<Rightarrow> setBlockDir fs p emptyDir | Some d \<Rightarrow> fs))"

definition makeDir :: "blockDiskStore \<Rightarrow> disk \<Rightarrow> BlockID \<Rightarrow> error option \<times> disk" where
  "makeDir s fs bid =
     (case MkdirAll s fs bid of
        (Some err, fs') \<Rightarrow> (Some err, fs')
      | (None, fs') \<Rightarrow> WriteFile s opWriteId (\<lambda>d. d\<lparr>idFile := Some bid\<rparr>) fs' bid)"

text \<open>The two loops of \<^verbatim>\<open>addRefs\<close>: check every context, then put every context.\<close>

fun checkContexts :: "blockRefMap \<Rightarrow> BlockContext list \<Rightarrow> error option" where
  "checkContexts refs [] = None"
| "checkContexts refs (bctx # contexts) =
     (case checkExists refs bctx of
        Inl err \<Rightarrow> Some err
      | Inr _ \<Rightarrow> checkContexts refs contexts)"

fun putContexts ::
  "blockRefMap \<Rightarrow> BlockContext list \<Rightarrow> blockRefStatus \<Rightarrow> string \<Rightarrow> error + blockRefMap" where
  "putContexts refs [] status tag = Inr refs"
| "putContexts refs (bctx # contexts) status tag =
     (case blockRefMap_put refs bctx status tag of
        Inl err \<Rightarrow> Inl err
      | Inr refs' \<Rightarrow> putContexts refs' contexts status tag)"

definition addRefs ::
  "blockDiskStore \<Rightarrow> disk \<Rightarrow> BlockID \<Rightarrow> BlockContext list \<Rightarrow> blockRefStatus \<Rightarrow> string
     \<Rightarrow> error option \<times> disk" where
  "addRefs s fs bid contexts status tag =
     (case getRefInfo s fs bid of
        Inl err \<Rightarrow> (Some err, fs)
      | Inr refInfo \<Rightarrow>
          (case (if length (Refs refInfo) > 0 then checkContexts (Refs refInfo) contexts else None) of
             Some err \<Rightarrow> (Some err, fs)
           | None \<Rightarrow>
               (case putContexts (Refs refInfo) contexts status tag of
                  Inl err \<Rightarrow> (Some err, fs)
                | Inr refs' \<Rightarrow> putRefInfo s fs bid (blockRefInfo refs'))))"

section \<open>Reading blocks\<close>

definition getData ::
  "blockDiskStore \<Rightarrow> disk \<Rightarrow> BlockID \<Rightarrow> error + (bytes \<times> BlockCryptKeyServerHalf)" where
  "getData s fs bid =
     (case ReadFile s opReadData dataFile fs bid of
        Inl err \<Rightarrow> if err = errNotExist then Inl (blockNonExistentError bid) else Inl err
      | Inr data \<Rightarrow>
          (case ReadFile s opReadKsh kshFile fs bid of
             Inl err \<Rightarrow> if err = errNotExist then Inl (blockNonExistentError bid) else Inl err
           | Inr buf \<Rightarrow>
               (case MakePermanentBlockID s data of
                  Inl msg \<Rightarrow> Inl (cryptoError msg)
                | Inr dataID \<Rightarrow>
                    if bid \<noteq> dataID then Inl (blockIDMismatchError bid dataID)
                    else (case UnmarshalBinary s buf of
                            Inl msg \<Rightarrow> Inl (cryptoError msg)
                          | Inr serverHalf \<Rightarrow> Inr (data, serverHalf)))))"

definition hasAnyRef :: "blockDiskStore \<Rightarrow> disk \<Rightarrow> BlockID \<Rightarrow> error + bool" where
  "hasAnyRef s fs bid =
     (case getRefInfo s fs bid of
        Inl err \<Rightarrow> Inl err
      | Inr refInfo \<Rightarrow> Inr (length (Refs refInfo) > 0))"

definition hasContext :: "blockDiskStore \<Rightarrow> disk \<Rightarrow> BlockID \<Rightarrow> BlockContext \<Rightarrow> error + bool" where
  "hasContext s fs bid bctx =
     (case getRefInfo s fs bid of
        Inl err \<Rightarrow> Inl err
      | Inr refInfo \<Rightarrow> checkExists (Refs refInfo) bctx)"

definition getDataWithContext ::
  "blockDiskStore \<Rightarrow> disk \<Rightarrow> BlockID \<Rightarrow> BlockContext
     \<Rightarrow> error + (bytes \<times> BlockCryptKeyServerHalf)" where
  "getDataWithContext s fs bid bctx =
     (case hasContext s fs bid bctx of
        Inl err \<Rightarrow> Inl err
      | Inr hasCtx \<Rightarrow> if \<not> hasCtx then Inl (blockNonExistentError bid) else getData s fs bid)"

section \<open>Putting blocks\<close>

text \<open>
  Modelled from the spec: \<^verbatim>\<open>validateBlockPut\<close> is called by \<^verbatim>\<open>put\<close> but is not
  among the source files. Section 4.1: \<^verbatim>\<open>put\<close> "validates \<^verbatim>\<open>hash(data) == id\<close>".
\<close>

definition validateBlockPut ::
  "blockDiskStore \<Rightarrow> BlockID \<Rightarrow> BlockContext \<Rightarrow> bytes \<Rightarrow> error option" where
  "validateBlockPut s bid bctx buf =
     (case MakePermanentBlockID s buf of
        Inl msg \<Rightarrow> Some (cryptoError msg)
      | Inr bufID \<Rightarrow> if bid \<noteq> bufID then Some (blockIDMismatchError bid bufID) else None)"

fun isBlockNonExistentError :: "error \<Rightarrow> bool" where
  "isBlockNonExistentError (blockNonExistentError _) = True"
| "isBlockNonExistentError _ = False"

text \<open>
  The branch of \<^verbatim>\<open>put\<close> taken when the block does not exist: \<^verbatim>\<open>makeDir\<close>, write
  \<^verbatim>\<open>data\<close>, marshal the server half, write \<^verbatim>\<open>ksh\<close>; each step returns at its error.
\<close>

definition putFiles ::
  "blockDiskStore \<Rightarrow> disk \<Rightarrow> BlockID \<Rightarrow> bytes \<Rightarrow> BlockCryptKeyServerHalf \<Rightarrow> error option \<times> disk" where
  "putFiles s fs bid buf serverHalf =
     (case makeDir s fs bid of
        (Some err, fs1) \<Rightarrow> (Some err, fs1)
      | (None, fs1) \<Rightarrow>
          (case WriteFile s opWriteData (\<lambda>d. d\<lparr>dataFile := Some buf\<rparr>) fs1 bid of
             (Some err, fs2) \<Rightarrow> (Some err, fs2)
           | (None, fs2) \<Rightarrow>
               (case MarshalBinary s serverHalf of
                  Inl msg \<Rightarrow> (Some (cryptoError msg), fs2)
                | Inr data \<Rightarrow> WriteFile s opWriteKsh (\<lambda>d. d\<lparr>kshFile := Some data\<rparr>) fs2 bid)))"

text \<open>
  \<^verbatim>\<open>put\<close>: the switch on the error of \<^verbatim>\<open>getDataWithContext\<close> sets \<^verbatim>\<open>exists\<close>
  (false on \<^verbatim>\<open>blockNonExistentError\<close>, true on \<^verbatim>\<open>nil\<close>, any other error is
  returned). The branches below are the two branches of \<^verbatim>\<open>if exists\<close>, each followed
  by the call of \<^verbatim>\<open>addRefs\<close> that ends the function.
\<close>

definition put ::
  "blockDiskStore \<Rightarrow> disk \<Rightarrow> BlockID \<Rightarrow> BlockContext \<Rightarrow> bytes \<Rightarrow> BlockCryptKeyServerHalf \<Rightarrow> string
     \<Rightarrow> error option \<times> disk" where
  "put s fs bid bctx buf serverHalf tag =
     (case validateBlockPut s bid bctx buf of
        Some err \<Rightarrow> (Some err, fs)
      | None \<Rightarrow>
          (case getDataWithContext s fs bid bctx of
             Inl err \<Rightarrow>
               if isBlockNonExistentError err then
                 (case putFiles s fs bid buf serverHalf of
                    (Some err', fs') \<Rightarrow> (Some err', fs')
                  | (None, fs') \<Rightarrow> addRefs s fs' bid [bctx] liveBlockRef tag)
               else (Some err, fs)
           | Inr (_, existingServerHalf) \<Rightarrow>
               if existingServerHalf \<noteq> serverHalf
               then (Some (keyServerHalfMismatchError existingServerHalf serverHalf), fs)
               else addRefs s fs bid [bctx] liveBlockRef tag))"

definition addReference ::
  "blockDiskStore \<Rightarrow> disk \<Rightarrow> BlockID \<Rightarrow> BlockContext \<Rightarrow> string \<Rightarrow> error option \<times> disk" where
  "addReference s fs bid bctx tag =
     (case makeDir s fs bid of
        (Some err, fs') \<Rightarrow> (Some err, fs')
      | (None, fs') \<Rightarrow> addRefs s fs' bid [bctx] liveBlockRef tag)"

section \<open>Removing blocks\<close>

text \<open>
  \<^verbatim>\<open>os.RemoveAll\<close> of the block path deletes the block directory and everything
  in it, and succeeds when there is none.
\<close>

definition RemoveAll :: "blockDiskStore \<Rightarrow> disk \<Rightarrow> BlockID \<Rightarrow> error option \<times> disk" where
  "RemoveAll s fs bid =
     (case blockPath bid of
        None \<Rightarrow> (Some sliceBoundsPanic, fs)
      | Some p \<Rightarrow>
          if ioFails s opRemoveAll then (Some (ioError opRemoveAll), fs)
          else (None, case fs (fst p) of None \<Rightarrow> fs | Some sd \<Rightarrow> fs(fst p \<mapsto> sd(snd p := None))))"

text \<open>
  \<^verbatim>\<open>os.Remove\<close> of the splayed parent: it deletes an empty directory, and reports a
  missing one or one that still has entries.
\<close>

definition RemoveParent :: "blockDiskStore \<Rightarrow> disk \<Rightarrow> BlockID \<Rightarrow> error option \<times> disk" where
  "RemoveParent s fs bid =
     (case blockPath bid of
        None \<Rightarrow> (Some sliceBoundsPanic, fs)
      | Some p \<Rightarrow>
          if ioFails s opRemoveParent then (Some (ioError opRemoveParent), fs)
          else (case fs (fst p) of
                  None \<Rightarrow> (Some errNotExist, fs)
                | Some sd \<Rightarrow> if sd = Map.empty then (None, fs(fst p := None)) else (Some errNotEmpty, fs)))"

text \<open>
  Modelled from the spec: the helper \<^verbatim>\<open>isExist\<close> is called by \<^verbatim>\<open>remove\<close> but is not
  among the source files. Section 4.1: \<^verbatim>\<open>remove\<close> "deletes the block directory and,
  if empty, its splayed parent", so the error of removing a parent that is not empty is
  the one it recognises.
\<close>

definition isExist :: "error \<Rightarrow> bool" where
  "isExist err = (err = errNotEmpty)"

definition remove :: "blockDiskStore \<Rightarrow> disk \<Rightarrow> BlockID \<Rightarrow> error option \<times> disk" where
  "remove s fs bid =
     (case hasAnyRef s fs bid of
        Inl err \<Rightarrow> (Some err, fs)
      | Inr hasRef \<Rightarrow>
          if hasRef then (Some (removeReferencedError bid), fs)
          else (case RemoveAll s fs bid of
                  (Some err, fs') \<Rightarrow> (Some err, fs')
                | (None, fs') \<Rightarrow>
                    (case RemoveParent s fs' bid of
                       (Some err, fs'') \<Rightarrow>
                         if err = errNotExist \<or> isExist err then (None, fs'') else (Some err, fs'')
                     | (None, fs'') \<Rightarrow> (None, fs''))))"

section \<open>The reporter's notification buffers\<close>

text \<open>
  \<^verbatim>\<open>libkbfs/reporter_kbpki.go\<close>: the reporter holds two buffered channels, made with
  capacity \<^verbatim>\<open>bufSize\<close> and closed by \<^verbatim>\<open>Shutdown\<close>. A channel is its queue, its capacity
  and whether it is closed. A call either returns, panics, or waits.
\<close>

record 'a chan =
  chanBuf :: "'a list"
  chanCap :: nat
  chanClosed :: bool




record ('n, 'y) ReporterKBPKI =
  notifyBuffer :: "'n chan"
  notifySyncBuffer :: "'y chan"
  debugLog :: "string list"



definition Shutdown :: "('n, 'y) ReporterKBPKI \<Rightarrow> ('n, 'y) ReporterKBPKI" where
  "Shutdown r =
     r\<lparr>notifyBuffer := (notifyBuffer r)\<lparr>chanClosed := True\<rparr>,
       notifySyncBuffer := (notifySyncBuffer r)\<lparr>chanClosed := True\<rparr>\<rparr>"

section \<open>Example values\<close>

text \<open>
  A store without I/O failures whose hash gives the block \<^verbatim>\<open>{1, 2, 3, 4}\<close> of the
  tests one ID and every other buffer another, two contexts as \<^verbatim>\<open>putBlockData\<close> and
  \<^verbatim>\<open>addBlockRef\<close> build them, and two server halves.
\<close>

definition testID :: BlockID where
  "testID = ''01a1b2c3d4e5f60718293a4b5c6d7e8f9000112233445566778899aabbccddeeff''"

definition otherID :: BlockID where
  "otherID = ''01ffeeddccbbaa99887766554433221100f9e8d7c6b5a4938271605f4e3d2c1b0a''"

definition testStore :: blockDiskStore where
  "testStore =
     \<lparr>MakePermanentBlockID = (\<lambda>buf. Inr (if buf = [1, 2, 3, 4] then testID else otherID)),
      MarshalBinary = (\<lambda>h. Inr (keyData h)),
      UnmarshalBinary = (\<lambda>b. Inr (BlockCryptKeyServerHalf b)),
      ioFails = (\<lambda>_. False)\<rparr>"

definition ctx1 :: BlockContext where
  "ctx1 = BlockContext ''uid1'' [] [0, 0, 0, 0, 0, 0, 0, 0]"

definition ctx2 :: BlockContext where
  "ctx2 = BlockContext ''uid1'' ''uid2'' [1, 2, 3, 4, 5, 6, 7, 8]"

definition half1 :: BlockCryptKeyServerHalf where
  "half1 = BlockCryptKeyServerHalf [7, 7]"

definition half2 :: BlockCryptKeyServerHalf where
  "half2 = BlockCryptKeyServerHalf [9, 9]"

text \<open>The disk after \<^verbatim>\<open>put\<close> of the block under \<open>ctx1\<close> and \<open>half1\<close> into an empty store.\<close>

definition diskPut1 :: disk where
  "diskPut1 =
     [''01a1'' \<mapsto> [''b2c3d4e5f60718293a4b5c6d7e8f90'' \<mapsto>
        \<lparr>idFile = Some testID, dataFile = Some [1, 2, 3, 4], kshFile = Some [7, 7],
         refsFile = Some (blockRefInfo [(ctx1, blockRefEntry liveBlockRef ''t1'')])\<rparr>]]"

text \<open>The same disk after \<^verbatim>\<open>addReference\<close> under \<open>ctx2\<close>.\<close>

definition diskTwoRefs :: disk where
  "diskTwoRefs =
     [''01a1'' \<mapsto> [''b2c3d4e5f60718293a4b5c6d7e8f90'' \<mapsto>
        \<lparr>idFile = Some testID, dataFile = Some [1, 2, 3, 4], kshFile = Some [7, 7],
         refsFile = Some (blockRefInfo [(ctx1, blockRefEntry liveBlockRef ''t1''),
                                        (ctx2, blockRefEntry liveBlockRef ''t2'')])\<rparr>]]"

text \<open>The same disk after \<^verbatim>\<open>removeReferences\<close> of both contexts.\<close>

definition diskNoRefs :: disk where
  "diskNoRefs =
     [''01a1'' \<mapsto> [''b2c3d4e5f60718293a4b5c6d7e8f90'' \<mapsto>
        \<lparr>idFile = Some testID, dataFile = Some [1, 2, 3, 4], kshFile = Some [7, 7],
         refsFile = Some (blockRefInfo [])\<rparr>]]"

text \<open>A disk whose \<^verbatim>\<open>data\<close> file has been damaged: the bytes no longer hash to the ID.\<close>

definition diskCorrupt :: disk where
  "diskCorrupt =
     [''01a1'' \<mapsto> [''b2c3d4e5f60718293a4b5c6d7e8f90'' \<mapsto>
        \<lparr>idFile = Some testID, dataFile = Some [1, 2, 3, 5], kshFile = Some [7, 7],
         refsFile = Some (blockRefInfo [(ctx1, blockRefEntry liveBlockRef ''t1'')])\<rparr>]]"

text \<open>A store on which writing the \<^verbatim>\<open>ksh\<close> file fails.\<close>

definition kshFailStore :: blockDiskStore where
  "kshFailStore = testStore\<lparr>ioFails := (\<lambda>opn. opn = opWriteKsh)\<rparr>"


text \<open>The reference for a context is there and the tag lets \<^verbatim>\<open>remove\<close> take it.\<close>

definition removable :: "blockRefMap \<Rightarrow> string \<Rightarrow> BlockContext \<Rightarrow> bool" where
  "removable refs tag bctx =
     (case map_of refs bctx of None \<Rightarrow> False | Some e \<Rightarrow> tag = [] \<or> Tag e = tag)"


definition noFaults :: "blockDiskStore \<Rightarrow> bool" where
  "noFaults s = (\<forall>opn. \<not> ioFails s opn)"

section \<open>Files and directories\<close>

lemmas example_defs = testID_def otherID_def testStore_def ctx1_def ctx2_def half1_def half2_def
  diskPut1_def diskTwoRefs_def diskNoRefs_def diskCorrupt_def kshFailStore_def

lemmas file_defs = ReadFile_def WriteFile_def fileOf_def blockPath_def blockDirAt_def
  setBlockDir_def MkdirAll_def emptyDir_def

lemmas store_defs = put_def putFiles_def validateBlockPut_def getDataWithContext_def hasContext_def
  getRefInfo_def makeDir_def addRefs_def putRefInfo_def checkExists_def blockRefMap_put_def
  getData_def addReference_def remove_def hasAnyRef_def RemoveAll_def RemoveParent_def isExist_def

lemma fst_snd_eq: "fst x = a \<Longrightarrow> x = (a, snd x)"
  by (cases x) simp

lemma len_testID: "34 \<le> length testID"
  by (simp add: testID_def)

lemma noFaults_testStore: "noFaults testStore"
  by (simp add: noFaults_def testStore_def)

lemma blockPath_Some: "34 \<le> length bid \<Longrightarrow> \<exists>p. blockPath bid = Some p"
  by (simp add: blockPath_def)

lemma blockDirAt_setBlockDir:
  "blockDirAt (setBlockDir fs p d) q = (if q = p then Some d else blockDirAt fs q)"
  by (cases p; cases q) (auto simp: blockDirAt_def setBlockDir_def split: option.splits)

lemma setBlockDir_twice [simp]: "setBlockDir (setBlockDir fs p d) p d' = setBlockDir fs p d'"
  by (simp add: setBlockDir_def)

lemma fileOf_setBlockDir:
  "blockPath bid = Some p \<Longrightarrow> fileOf sel (setBlockDir fs p d) bid = sel d"
  by (simp add: fileOf_def blockDirAt_setBlockDir)

lemma ReadFile_ok:
  "blockPath bid = Some p \<Longrightarrow> \<not> ioFails s opn \<Longrightarrow>
   ReadFile s opn sel fs bid =
     (case blockDirAt fs p of
        None \<Rightarrow> Inl errNotExist
      | Some d \<Rightarrow> (case sel d of None \<Rightarrow> Inl errNotExist | Some c \<Rightarrow> Inr c))"
  by (simp add: ReadFile_def fileOf_def split: option.splits)

lemma ReadFile_no_fault:
  "34 \<le> length bid \<Longrightarrow> \<not> ioFails s opn \<Longrightarrow>
   ReadFile s opn sel fs bid =
     (case fileOf sel fs bid of None \<Rightarrow> Inl errNotExist | Some c \<Rightarrow> Inr c)"
  by (simp add: ReadFile_def blockPath_def)

lemma ReadFile_cong:
  "fileOf sel fs1 bid = fileOf sel fs bid \<Longrightarrow>
   ReadFile s opn sel fs1 bid = ReadFile s opn sel fs bid"
  by (simp add: ReadFile_def cong: option.case_cong)

lemma WriteFile_ok:
  "blockPath bid = Some p \<Longrightarrow> \<not> ioFails s opn \<Longrightarrow> blockDirAt fs p = Some d \<Longrightarrow>
   WriteFile s opn upd fs bid = (None, setBlockDir fs p (upd d))"
  by (simp add: WriteFile_def)

lemma WriteFile_success:
  "WriteFile s opn upd fs bid = (None, fs') \<Longrightarrow>
   \<exists>p d. blockPath bid = Some p \<and> blockDirAt fs p = Some d \<and> fs' = setBlockDir fs p (upd d)"
  by (auto simp: WriteFile_def split: option.splits if_splits)




lemma fileOf_WriteFile:
  "WriteFile s opn upd fs bid = (r, fs') \<Longrightarrow> (\<And>d. sel (upd d) = sel d) \<Longrightarrow>
   fileOf sel fs' bid' = fileOf sel fs bid'"
  by (auto simp: WriteFile_def fileOf_def blockDirAt_setBlockDir split: option.splits if_splits)

lemma MkdirAll_ok:
  "blockPath bid = Some p \<Longrightarrow> \<not> ioFails s opMkdirAll \<Longrightarrow>
   MkdirAll s fs bid =
     (None, case blockDirAt fs p of None \<Rightarrow> setBlockDir fs p emptyDir | Some d \<Rightarrow> fs)"
  by (simp add: MkdirAll_def)



section \<open>Reading a block\<close>

text \<open>
  Claim C5. On an ID of at least 34 characters (so that the block path can be built)
  and without failing reads, \<^verbatim>\<open>getData\<close> reports
  "block does not exist" exactly when the \<^verbatim>\<open>data\<close> file or the \<^verbatim>\<open>ksh\<close> file is
  missing. When both are there, stored bytes that hash to another ID give the ID
  mismatch error, and bytes that hash to the ID are returned with the unmarshalled
  server half; whatever it returns is the stored content, and hashes to the ID.
\<close>

theorem getData_cases:
  assumes "34 \<le> length bid" and "\<not> ioFails s opReadData" and "\<not> ioFails s opReadKsh"
  shows "(getData s fs bid = Inl (blockNonExistentError bid) \<longleftrightarrow>
            fileOf dataFile fs bid = None \<or> fileOf kshFile fs bid = None) \<and>
         (\<forall>data buf dataID.
            fileOf dataFile fs bid = Some data \<and> fileOf kshFile fs bid = Some buf \<and>
            MakePermanentBlockID s data = Inr dataID \<and> dataID \<noteq> bid
            \<longrightarrow> getData s fs bid = Inl (blockIDMismatchError bid dataID)) \<and>
         (\<forall>data buf serverHalf.
            fileOf dataFile fs bid = Some data \<and> fileOf kshFile fs bid = Some buf \<and>
            MakePermanentBlockID s data = Inr bid \<and> UnmarshalBinary s buf = Inr serverHalf
            \<longrightarrow> getData s fs bid = Inr (data, serverHalf)) \<and>
         (\<forall>data serverHalf.
            getData s fs bid = Inr (data, serverHalf)
            \<longrightarrow> fileOf dataFile fs bid = Some data \<and> MakePermanentBlockID s data = Inr bid \<and>
                (\<exists>buf. fileOf kshFile fs bid = Some buf \<and> UnmarshalBinary s buf = Inr serverHalf))"
  using assms
  by (auto simp: getData_def ReadFile_no_fault split: option.splits sum.splits)

theorem getData_cases_witness:
  "34 \<le> length testID \<and> \<not> ioFails testStore opReadData \<and> \<not> ioFails testStore opReadKsh \<and>
   fileOf dataFile Map.empty testID = None \<and>
   getData testStore Map.empty testID = Inl (blockNonExistentError testID) \<and>
   fileOf dataFile diskPut1 testID = Some [1, 2, 3, 4] \<and>
   fileOf kshFile diskPut1 testID = Some [7, 7] \<and>
   MakePermanentBlockID testStore [1, 2, 3, 4] = Inr testID \<and>
   UnmarshalBinary testStore [7, 7] = Inr half1 \<and>
   getData testStore diskPut1 testID = Inr ([1, 2, 3, 4], half1) \<and>
   fileOf dataFile diskCorrupt testID = Some [1, 2, 3, 5] \<and>
   fileOf kshFile diskCorrupt testID = Some [7, 7] \<and>
   MakePermanentBlockID testStore [1, 2, 3, 5] = Inr otherID \<and> otherID \<noteq> testID \<and>
   getData testStore diskCorrupt testID = Inl (blockIDMismatchError testID otherID)"
proof -
  have a: "34 \<le> length testID" by (rule len_testID)
  have b: "\<not> ioFails testStore opReadData" and c: "\<not> ioFails testStore opReadKsh"
    by (simp_all add: testStore_def)
  note t = getData_cases [OF a b c]
  have e: "fileOf dataFile Map.empty testID = None" by (simp add: file_defs example_defs)
  have p: "fileOf dataFile diskPut1 testID = Some [1, 2, 3, 4]"
    "fileOf kshFile diskPut1 testID = Some [7, 7]"
    "MakePermanentBlockID testStore [1, 2, 3, 4] = Inr testID"
    "UnmarshalBinary testStore [7, 7] = Inr half1"
    by (simp_all add: file_defs example_defs)
  have q: "fileOf dataFile diskCorrupt testID = Some [1, 2, 3, 5]"
    "fileOf kshFile diskCorrupt testID = Some [7, 7]"
    "MakePermanentBlockID testStore [1, 2, 3, 5] = Inr otherID" "otherID \<noteq> testID"
    by (simp_all add: file_defs example_defs)
  from t [of Map.empty] e have 1:
    "getData testStore Map.empty testID = Inl (blockNonExistentError testID)"
    by blast
  from t [of diskPut1] p have 2: "getData testStore diskPut1 testID = Inr ([1, 2, 3, 4], half1)"
    by blast
  from t [of diskCorrupt] q have 3:
    "getData testStore diskCorrupt testID = Inl (blockIDMismatchError testID otherID)"
    by blast
  from a b c e p q 1 2 3 show ?thesis by blast
qed

lemma getData_cong:
  assumes "fileOf dataFile fs1 bid = fileOf dataFile fs bid"
    and "fileOf kshFile fs1 bid = fileOf kshFile fs bid"
  shows "getData s fs1 bid = getData s fs bid"
  unfolding getData_def ReadFile_cong [OF assms(1)] ReadFile_cong [OF assms(2)] ..

section \<open>Reference information on disk\<close>

lemma getRefInfo_ok:
  "blockPath bid = Some p \<Longrightarrow> \<not> ioFails s opReadRefs \<Longrightarrow>
   getRefInfo s fs bid =
     Inr (case blockDirAt fs p of
            None \<Rightarrow> blockRefInfo []
          | Some d \<Rightarrow> (case refsFile d of None \<Rightarrow> blockRefInfo [] | Some ri \<Rightarrow> ri))"
  by (simp add: getRefInfo_def ReadFile_ok split: option.splits)

lemma getRefInfo_empty:
  "34 \<le> length bid \<Longrightarrow> \<not> ioFails s opReadRefs \<Longrightarrow>
   fileOf refsFile fs bid = None \<or> fileOf refsFile fs bid = Some (blockRefInfo []) \<Longrightarrow>
   getRefInfo s fs bid = Inr (blockRefInfo [])"
  by (auto simp: getRefInfo_def ReadFile_def blockPath_def)

lemma getRefInfo_ok_no_fault:
  "getRefInfo s fs bid = Inr refInfo \<Longrightarrow> \<not> ioFails s opReadRefs"
  by (auto simp: getRefInfo_def ReadFile_def split: option.splits if_splits sum.splits)

lemma getRefInfo_after_putRefInfo:
  "putRefInfo s fs bid refInfo = (None, fs') \<Longrightarrow> \<not> ioFails s opReadRefs \<Longrightarrow>
   getRefInfo s fs' bid = Inr refInfo"
  by (auto simp: putRefInfo_def getRefInfo_def WriteFile_def ReadFile_def fileOf_def
      blockDirAt_setBlockDir split: option.splits if_splits)

lemma putRefInfo_keeps:
  "putRefInfo s fs bid refs = (e, fs') \<Longrightarrow> (\<And>d v. sel (d\<lparr>refsFile := v\<rparr>) = sel d) \<Longrightarrow>
   fileOf sel fs' bid' = fileOf sel fs bid'"
  unfolding putRefInfo_def by (erule fileOf_WriteFile) simp

lemma putRefInfo_keeps_data:
  "putRefInfo s fs bid refs = (e, fs') \<Longrightarrow> fileOf dataFile fs' bid' = fileOf dataFile fs bid'"
  by (erule putRefInfo_keeps) simp

lemma putRefInfo_keeps_ksh:
  "putRefInfo s fs bid refs = (e, fs') \<Longrightarrow> fileOf kshFile fs' bid' = fileOf kshFile fs bid'"
  by (erule putRefInfo_keeps) simp

section \<open>Removing references\<close>

lemma removeReferences_frame:
  "removeReferences s fs bid contexts tag = (r, fs') \<Longrightarrow>
   fs' = fs \<or> (\<exists>refs' e. putRefInfo s fs bid refs' = (e, fs'))"
  by (auto simp: removeReferences_def split: sum.splits if_splits prod.splits option.splits)

text \<open>
  Claim C8. Whatever \<^verbatim>\<open>removeReferences\<close> returns, the \<^verbatim>\<open>data\<close> and \<^verbatim>\<open>ksh\<close>
  files of the block (and of every other block) exist afterwards exactly when they did
  before, with the same contents.
\<close>

theorem removeReferences_leaves_data_ksh:
  "fileOf dataFile (snd (removeReferences s fs bid contexts tag)) bid' = fileOf dataFile fs bid' \<and>
   fileOf kshFile (snd (removeReferences s fs bid contexts tag)) bid' = fileOf kshFile fs bid'"
proof -
  obtain r fs' where eq: "removeReferences s fs bid contexts tag = (r, fs')"
    by (cases "removeReferences s fs bid contexts tag")
  from removeReferences_frame [OF eq] have
    "fileOf dataFile fs' bid' = fileOf dataFile fs bid' \<and>
     fileOf kshFile fs' bid' = fileOf kshFile fs bid'"
    by (auto dest: putRefInfo_keeps_data putRefInfo_keeps_ksh)
  then show ?thesis by (simp add: eq)
qed

text \<open>
  Claim C10. When the reference map of an ID is empty (there is no \<^verbatim>\<open>refs\<close> file, or
  it holds an empty map) and reading it does not fail, \<^verbatim>\<open>removeReferences\<close> returns
  the count 0 without an error and the disk is exactly as before: no block directory,
  \<^verbatim>\<open>id\<close> file or \<^verbatim>\<open>refs\<close> file is created.
\<close>

theorem removeReferences_empty_noop:
  assumes "34 \<le> length bid" and "\<not> ioFails s opReadRefs"
    and "fileOf refsFile fs bid = None \<or> fileOf refsFile fs bid = Some (blockRefInfo [])"
  shows "removeReferences s fs bid contexts tag = (Inr 0, fs)"
  using getRefInfo_empty [OF assms] by (simp add: removeReferences_def)

theorem removeReferences_empty_noop_witness:
  "34 \<le> length testID \<and> \<not> ioFails testStore opReadRefs \<and>
   fileOf refsFile Map.empty testID = None \<and>
   removeReferences testStore Map.empty testID [ctx1, ctx2] ''t1'' = (Inr 0, Map.empty)"
proof -
  have b: "\<not> ioFails testStore opReadRefs" by (simp add: testStore_def)
  have c: "fileOf refsFile Map.empty testID = None" by (simp add: file_defs testID_def)
  from removeReferences_empty_noop [OF len_testID b disjI1, OF c] len_testID b c
  show ?thesis by simp
qed

lemma blockRefMap_remove_map_of:
  "blockRefMap_remove refs b tag = Inr r1 \<Longrightarrow>
   map_of r1 c = (if c = b \<and> removable refs tag c then None else map_of refs c)"
  by (auto simp: blockRefMap_remove_def removable_def delete_conv' split: option.splits if_splits)

lemma removable_cong:
  "map_of r1 c = map_of refs c \<Longrightarrow> removable r1 tag c = removable refs tag c"
  by (simp add: removable_def)

lemma removable_None: "map_of refs c = None \<Longrightarrow> \<not> removable refs tag c"
  by (simp add: removable_def)

lemma removeLoop_map_of:
  "removeLoop refs contexts tag = Inr refs' \<Longrightarrow>
   map_of refs' c = (if c \<in> set contexts \<and> removable refs tag c then None else map_of refs c)"
proof (induction contexts arbitrary: refs)
  case Nil
  then show ?case by simp
next
  case (Cons b bs)
  from Cons.prems obtain r1 where r1: "blockRefMap_remove refs b tag = Inr r1"
    by (auto split: sum.splits)
  note m1 = blockRefMap_remove_map_of [OF r1, of c]
  show ?case
  proof (cases "r1 = []")
    case True
    with Cons.prems r1 have "refs' = []" by simp
    moreover have "map_of refs c = None \<or> (c = b \<and> removable refs tag c)"
    proof (cases "c = b \<and> removable refs tag c")
      case yes: True
      then show ?thesis by blast
    next
      case no: False
      with True m1 show ?thesis by simp
    qed
    ultimately show ?thesis by auto
  next
    case False
    with Cons.prems r1 have "removeLoop r1 bs tag = Inr refs'" by simp
    note ih = Cons.IH [OF this]
    show ?thesis
    proof (cases "c = b \<and> removable refs tag c")
      case True
      then have cb: "c = b" and rm: "removable refs tag c" by blast+
      from m1 cb rm have "map_of r1 c = None" by simp
      with ih cb rm removable_None [of r1 c tag] show ?thesis by simp
    next
      case False
      with m1 have same: "map_of r1 c = map_of refs c" by auto
      from False have
        "c \<in> set (b # bs) \<and> removable refs tag c \<longleftrightarrow> c \<in> set bs \<and> removable refs tag c"
        by auto
      with ih same removable_cong [OF same, of tag] show ?thesis by simp
    qed
  qed
qed

lemma removeLoop_distinct:
  "removeLoop refs contexts tag = Inr refs' \<Longrightarrow> distinct (map fst refs) \<Longrightarrow>
   distinct (map fst refs')"
proof (induction contexts arbitrary: refs)
  case Nil
  then show ?case by simp
next
  case (Cons b bs)
  then show ?case
    by (auto simp: blockRefMap_remove_def distinct_delete split: option.splits if_splits sum.splits)
qed

text \<open>
  Claim C2. When \<^verbatim>\<open>removeReferences\<close> returns a count, that count is the size of the
  reference map stored for the ID afterwards (live and archived references alike), and
  the stored map is the old one without exactly the listed contexts whose reference
  was there with an empty given tag or with the stored tag equal to the given one;
  every other reference is kept as it was.
\<close>

theorem removeReferences_count:
  assumes "removeReferences s fs bid contexts tag = (Inr liveCount, fs')"
  shows "\<exists>refs refs'.
           getRefInfo s fs bid = Inr (blockRefInfo refs) \<and>
           getRefInfo s fs' bid = Inr (blockRefInfo refs') \<and>
           liveCount = length refs' \<and>
           (distinct (map fst refs) \<longrightarrow> liveCount = card (dom (map_of refs'))) \<and>
           (\<forall>c. map_of refs' c =
                  (if c \<in> set contexts \<and> removable refs tag c then None else map_of refs c))"
proof -
  from assms obtain refs where g: "getRefInfo s fs bid = Inr (blockRefInfo refs)"
    by (cases "getRefInfo s fs bid") (auto simp: removeReferences_def intro: blockRefInfo.exhaust)
  note nf = getRefInfo_ok_no_fault [OF g]
  show ?thesis
  proof (cases "refs = []")
    case True
    with assms g have "liveCount = 0" "fs' = fs" by (simp_all add: removeReferences_def)
    with g True show ?thesis by (auto simp: removable_def)
  next
    case False
    with assms g obtain refs' where
      l: "removeLoop refs contexts tag = Inr refs'" and
      p: "putRefInfo s fs bid (blockRefInfo refs') = (None, fs')" and
      n: "liveCount = length refs'"
      by (auto simp: removeReferences_def split: sum.splits prod.splits option.splits)
    have d: "distinct (map fst refs) \<longrightarrow> liveCount = card (dom (map_of refs'))"
    proof
      assume "distinct (map fst refs)"
      from removeLoop_distinct [OF l this] have "distinct (map fst refs')" .
      then have "card (set (map fst refs')) = length (map fst refs')"
        by (rule distinct_card)
      then have "card (dom (map_of refs')) = length refs'"
        by (simp add: dom_map_of_conv_image_fst)
      with n show "liveCount = card (dom (map_of refs'))" by simp
    qed
    from g getRefInfo_after_putRefInfo [OF p nf] n d removeLoop_map_of [OF l]
    show ?thesis by blast
  qed
qed

theorem removeReferences_count_witness:
  "\<exists>fs'. removeReferences testStore diskTwoRefs testID [ctx1] ''t1'' = (Inr 1, fs') \<and>
     (\<exists>refs refs'.
        getRefInfo testStore diskTwoRefs testID = Inr (blockRefInfo refs) \<and>
        getRefInfo testStore fs' testID = Inr (blockRefInfo refs') \<and>
        (1::nat) = length refs' \<and>
        (distinct (map fst refs) \<longrightarrow> (1::nat) = card (dom (map_of refs'))) \<and>
        (\<forall>c. map_of refs' c =
               (if c \<in> set [ctx1] \<and> removable refs ''t1'' c then None else map_of refs c)))"
proof -
  have "fst (removeReferences testStore diskTwoRefs testID [ctx1] ''t1'') = Inr 1"
    by (simp add: removeReferences_def getRefInfo_def putRefInfo_def blockRefMap_remove_def
        file_defs example_defs)
  from removeReferences_count [OF fst_snd_eq [OF this]] fst_snd_eq [OF this]
  show ?thesis by blast
qed

section \<open>Adding a reference\<close>

lemma makeDir_ok:
  "blockPath bid = Some p \<Longrightarrow> \<not> ioFails s opMkdirAll \<Longrightarrow> \<not> ioFails s opWriteId \<Longrightarrow>
   makeDir s fs bid =
     (None, setBlockDir fs p
        ((case blockDirAt fs p of None \<Rightarrow> emptyDir | Some d \<Rightarrow> d)\<lparr>idFile := Some bid\<rparr>))"
  by (simp add: makeDir_def MkdirAll_ok WriteFile_ok blockDirAt_setBlockDir split: option.splits)

lemma addRefs_one_ok:
  "blockPath bid = Some p \<Longrightarrow> \<not> ioFails s opReadRefs \<Longrightarrow> \<not> ioFails s opWriteRefs \<Longrightarrow>
   blockDirAt fs p = Some d \<Longrightarrow>
   addRefs s fs bid [bctx] status tag =
     (None, setBlockDir fs p
        (d\<lparr>refsFile := Some (blockRefInfo (AList.update bctx (blockRefEntry status tag)
              (case refsFile d of None \<Rightarrow> [] | Some ri \<Rightarrow> Refs ri)))\<rparr>))"
  by (simp add: addRefs_def getRefInfo_ok checkExists_def blockRefMap_put_def putRefInfo_def
      WriteFile_ok split: option.splits)

lemma addRefs_one_success:
  assumes "addRefs s fs bid [bctx] status tag = (None, fs1)"
  shows "\<exists>p d. blockPath bid = Some p \<and> blockDirAt fs p = Some d \<and>
           \<not> ioFails s opReadRefs \<and> \<not> ioFails s opWriteRefs \<and>
           fs1 = setBlockDir fs p
             (d\<lparr>refsFile := Some (blockRefInfo (AList.update bctx (blockRefEntry status tag)
                (case refsFile d of None \<Rightarrow> [] | Some ri \<Rightarrow> Refs ri)))\<rparr>)"
proof -
  from assms obtain refInfo where g: "getRefInfo s fs bid = Inr refInfo"
    by (cases "getRefInfo s fs bid") (auto simp: addRefs_def)
  then obtain p where p: "blockPath bid = Some p"
    by (cases "blockPath bid") (auto simp: getRefInfo_def ReadFile_def)
  from g have nr: "\<not> ioFails s opReadRefs" by (rule getRefInfo_ok_no_fault)
  from assms g obtain refs' where
    w: "putRefInfo s fs bid (blockRefInfo refs') = (None, fs1)"
    by (auto simp: addRefs_def split: option.splits sum.splits if_splits)
  with p have nw: "\<not> ioFails s opWriteRefs" and "\<exists>d. blockDirAt fs p = Some d"
    by (auto simp: putRefInfo_def WriteFile_def split: if_splits option.splits)
  then obtain d where d: "blockDirAt fs p = Some d" by blast
  from assms addRefs_one_ok [OF p nr nw d, of bctx status tag] p d nr nw show ?thesis by simp
qed

lemma addRefs_one_idem:
  assumes "addRefs s fs bid [bctx] status tag = (None, fs1)"
  shows "addRefs s fs1 bid [bctx] status tag = (None, fs1)"
proof -
  from addRefs_one_success [OF assms] obtain p d where
    p: "blockPath bid = Some p" and d: "blockDirAt fs p = Some d" and
    nr: "\<not> ioFails s opReadRefs" and nw: "\<not> ioFails s opWriteRefs" and
    fs1: "fs1 = setBlockDir fs p
             (d\<lparr>refsFile := Some (blockRefInfo (AList.update bctx (blockRefEntry status tag)
                (case refsFile d of None \<Rightarrow> [] | Some ri \<Rightarrow> Refs ri)))\<rparr>)"
    by blast
  have at: "blockDirAt fs1 p =
      Some (d\<lparr>refsFile := Some (blockRefInfo (AList.update bctx (blockRefEntry status tag)
                (case refsFile d of None \<Rightarrow> [] | Some ri \<Rightarrow> Refs ri)))\<rparr>)"
    by (simp add: fs1 blockDirAt_setBlockDir)
  show ?thesis
    by (simp add: addRefs_one_ok [OF p nr nw at]) (simp add: fs1)
qed

lemma addRefs_one_hasContext:
  assumes "addRefs s fs bid [bctx] status tag = (None, fs1)"
  shows "hasContext s fs1 bid bctx = Inr True"
proof -
  from addRefs_one_success [OF assms] obtain p d where
    p: "blockPath bid = Some p" and d: "blockDirAt fs p = Some d" and
    nr: "\<not> ioFails s opReadRefs" and
    fs1: "fs1 = setBlockDir fs p
             (d\<lparr>refsFile := Some (blockRefInfo (AList.update bctx (blockRefEntry status tag)
                (case refsFile d of None \<Rightarrow> [] | Some ri \<Rightarrow> Refs ri)))\<rparr>)"
    by blast
  show ?thesis
    by (simp add: hasContext_def getRefInfo_ok [OF p nr] fs1 blockDirAt_setBlockDir
        checkExists_def update_conv')
qed

lemma addRefs_keeps:
  "addRefs s fs bid contexts status tag = (r, fs1) \<Longrightarrow>
   (\<And>d v. sel (d\<lparr>refsFile := v\<rparr>) = sel d) \<Longrightarrow>
   fileOf sel fs1 bid' = fileOf sel fs bid'"
  by (auto simp: addRefs_def split: sum.splits option.splits if_splits dest: putRefInfo_keeps)







section \<open>Removing a block\<close>

lemma remove_referenced:
  "getRefInfo s fs bid = Inr refInfo \<Longrightarrow> Refs refInfo \<noteq> [] \<Longrightarrow>
   remove s fs bid = (Some (removeReferencedError bid), fs)"
  by (simp add: remove_def hasAnyRef_def)

lemma remove_success:
  assumes "remove s fs bid = (None, fs')"
  shows "getRefInfo s fs bid = Inr (blockRefInfo []) \<and>
         (\<exists>p. blockPath bid = Some p \<and>
              fs' = (case fs (fst p) of
                       None \<Rightarrow> fs
                     | Some sd \<Rightarrow> if sd(snd p := None) = Map.empty then fs(fst p := None)
                                  else fs(fst p \<mapsto> sd(snd p := None))))"
proof -
  from assms obtain b where b: "hasAnyRef s fs bid = Inr b"
    by (cases "hasAnyRef s fs bid") (auto simp: remove_def)
  then obtain refInfo where
    g: "getRefInfo s fs bid = Inr refInfo" and bb: "b = (Refs refInfo \<noteq> [])"
    by (auto simp: hasAnyRef_def split: sum.splits)
  from assms b have nb: "\<not> b" by (auto simp: remove_def split: if_splits)
  with bb have "Refs refInfo = []" by simp
  then have ri: "refInfo = blockRefInfo []" by (cases refInfo) simp
  from g obtain p where p: "blockPath bid = Some p"
    by (cases "blockPath bid") (auto simp: getRefInfo_def ReadFile_def)
  from assms b nb obtain fs1 where
    ra: "RemoveAll s fs bid = (None, fs1)" and
    rp: "RemoveParent s fs1 bid = (None, fs') \<or> RemoveParent s fs1 bid = (Some errNotExist, fs') \<or>
         RemoveParent s fs1 bid = (Some errNotEmpty, fs')"
    by (auto simp: remove_def isExist_def split: prod.splits option.splits if_splits)
  from ra p have fs1:
    "fs1 = (case fs (fst p) of None \<Rightarrow> fs | Some sd \<Rightarrow> fs(fst p \<mapsto> sd(snd p := None)))"
    by (auto simp: RemoveAll_def split: if_splits)
  from rp p have "fs' = (case fs1 (fst p) of None \<Rightarrow> fs1
      | Some sd \<Rightarrow> if sd = Map.empty then fs1(fst p := None) else fs1)"
    by (auto simp: RemoveParent_def split: if_splits option.splits)
  with fs1 have "fs' = (case fs (fst p) of
                       None \<Rightarrow> fs
                     | Some sd \<Rightarrow> if sd(snd p := None) = Map.empty then fs(fst p := None)
                                  else fs(fst p \<mapsto> sd(snd p := None)))"
    by (auto split: option.splits)
  with g ri p show ?thesis by simp
qed

lemma removed_dirs:
  assumes "fs' = (case fs (fst p) of
                    None \<Rightarrow> fs
                  | Some sd \<Rightarrow> if sd(snd p := None) = Map.empty then fs(fst p := None)
                               else fs(fst p \<mapsto> sd(snd p := None)))"
  shows "blockDirAt fs' p = None \<and>
         (\<forall>q. q \<noteq> p \<longrightarrow> blockDirAt fs' q = blockDirAt fs q) \<and>
         (\<forall>x. x \<noteq> fst p \<longrightarrow> fs' x = fs x) \<and>
         (fs' (fst p) = None \<longleftrightarrow>
            (\<forall>sd. fs (fst p) = Some sd \<longrightarrow> (\<forall>n. n \<noteq> snd p \<longrightarrow> sd n = None)))"
proof (cases "fs (fst p)")
  case None
  with assms show ?thesis by (simp add: blockDirAt_def)
next
  case (Some sd)
  show ?thesis
  proof (cases "sd(snd p := None) = Map.empty")
    case True
    then have other: "\<And>n. n \<noteq> snd p \<Longrightarrow> sd n = None"
      by (metis fun_upd_other)
    from assms Some True have f: "fs' = fs(fst p := None)" by simp
    have "\<And>q. q \<noteq> p \<Longrightarrow> blockDirAt fs' q = blockDirAt fs q"
      using other Some by (auto simp: f blockDirAt_def prod_eq_iff)
    with f Some other show ?thesis by (auto simp: blockDirAt_def)
  next
    case False
    then obtain n where n: "n \<noteq> snd p" "sd n \<noteq> None"
      by (metis fun_upd_apply ext)
    from assms Some False have f: "fs' = fs(fst p \<mapsto> sd(snd p := None))" by simp
    have "\<And>q. q \<noteq> p \<Longrightarrow> blockDirAt fs' q = blockDirAt fs q"
      using Some by (auto simp: f blockDirAt_def prod_eq_iff)
    with f Some n show ?thesis by (auto simp: blockDirAt_def)
  qed
qed

lemma remove_unreferenced_ok:
  assumes "34 \<le> length bid" and "noFaults s" and "getRefInfo s fs bid = Inr (blockRefInfo [])"
  shows "\<exists>fs'. remove s fs bid = (None, fs')"
proof -
  from assms(1) obtain p where p: "blockPath bid = Some p" using blockPath_Some by blast
  from assms(2) have nf: "\<And>opn. \<not> ioFails s opn" by (simp add: noFaults_def)
  show ?thesis
    by (auto simp: remove_def hasAnyRef_def assms(3) RemoveAll_def RemoveParent_def p nf isExist_def
        split: option.splits)
qed

text \<open>
  Claim C7. While the reference map of an ID holds any reference, live or archived,
  \<^verbatim>\<open>remove\<close> fails with an error and the disk is unchanged. When \<^verbatim>\<open>remove\<close>
  succeeds, the reference map was empty, the block directory is gone, every other block
  directory and every other splayed directory is as before, and the splayed parent is
  gone exactly when it had no other entry (or was not there). On a store without I/O
  failures \<^verbatim>\<open>remove\<close> of an ID of at least 34 characters with an empty reference
  map succeeds.
\<close>

theorem remove_only_unreferenced:
  "(\<forall>refInfo. getRefInfo s fs bid = Inr refInfo \<and> Refs refInfo \<noteq> []
      \<longrightarrow> remove s fs bid = (Some (removeReferencedError bid), fs)) \<and>
   (\<forall>fs'. remove s fs bid = (None, fs')
      \<longrightarrow> getRefInfo s fs bid = Inr (blockRefInfo []) \<and>
          (\<exists>p. blockPath bid = Some p \<and> blockDirAt fs' p = None \<and>
               (\<forall>q. q \<noteq> p \<longrightarrow> blockDirAt fs' q = blockDirAt fs q) \<and>
               (\<forall>x. x \<noteq> fst p \<longrightarrow> fs' x = fs x) \<and>
               (fs' (fst p) = None \<longleftrightarrow>
                  (\<forall>sd. fs (fst p) = Some sd \<longrightarrow> (\<forall>n. n \<noteq> snd p \<longrightarrow> sd n = None))))) \<and>
   (34 \<le> length bid \<and> noFaults s \<and> getRefInfo s fs bid = Inr (blockRefInfo [])
      \<longrightarrow> (\<exists>fs'. remove s fs bid = (None, fs')))"
proof (intro conjI allI impI)
  fix refInfo
  assume "getRefInfo s fs bid = Inr refInfo \<and> Refs refInfo \<noteq> []"
  then show "remove s fs bid = (Some (removeReferencedError bid), fs)"
    by (simp add: remove_referenced)
next
  fix fs'
  assume r: "remove s fs bid = (None, fs')"
  from remove_success [OF r] show "getRefInfo s fs bid = Inr (blockRefInfo [])" by simp
  from remove_success [OF r] obtain p where p: "blockPath bid = Some p" and
    f: "fs' = (case fs (fst p) of
                 None \<Rightarrow> fs
               | Some sd \<Rightarrow> if sd(snd p := None) = Map.empty then fs(fst p := None)
                            else fs(fst p \<mapsto> sd(snd p := None)))"
    by blast
  from removed_dirs [OF f] p have
    "blockPath bid = Some p \<and> blockDirAt fs' p = None \<and>
       (\<forall>q. q \<noteq> p \<longrightarrow> blockDirAt fs' q = blockDirAt fs q) \<and>
       (\<forall>x. x \<noteq> fst p \<longrightarrow> fs' x = fs x) \<and>
       (fs' (fst p) = None \<longleftrightarrow>
          (\<forall>sd. fs (fst p) = Some sd \<longrightarrow> (\<forall>n. n \<noteq> snd p \<longrightarrow> sd n = None)))"
    by (rule conjI [rotated])
  then show "\<exists>p. blockPath bid = Some p \<and> blockDirAt fs' p = None \<and>
             (\<forall>q. q \<noteq> p \<longrightarrow> blockDirAt fs' q = blockDirAt fs q) \<and>
             (\<forall>x. x \<noteq> fst p \<longrightarrow> fs' x = fs x) \<and>
             (fs' (fst p) = None \<longleftrightarrow>
                (\<forall>sd. fs (fst p) = Some sd \<longrightarrow> (\<forall>n. n \<noteq> snd p \<longrightarrow> sd n = None)))"
    by (rule exI)
next
  assume "34 \<le> length bid \<and> noFaults s \<and> getRefInfo s fs bid = Inr (blockRefInfo [])"
  then show "\<exists>fs'. remove s fs bid = (None, fs')"
    by (simp add: remove_unreferenced_ok)
qed

theorem remove_only_unreferenced_witness:
  "getRefInfo testStore diskTwoRefs testID
     = Inr (blockRefInfo [(ctx1, blockRefEntry liveBlockRef ''t1''),
                          (ctx2, blockRefEntry liveBlockRef ''t2'')]) \<and>
   remove testStore diskTwoRefs testID = (Some (removeReferencedError testID), diskTwoRefs) \<and>
   34 \<le> length testID \<and> noFaults testStore \<and>
   getRefInfo testStore diskNoRefs testID = Inr (blockRefInfo []) \<and>
   (\<exists>fs'. remove testStore diskNoRefs testID = (None, fs') \<and>
          blockDirAt fs' (''01a1'', ''b2c3d4e5f60718293a4b5c6d7e8f90'') = None \<and>
          fs' ''01a1'' = None)"
proof -
  have g2: "getRefInfo testStore diskTwoRefs testID
     = Inr (blockRefInfo [(ctx1, blockRefEntry liveBlockRef ''t1''),
                          (ctx2, blockRefEntry liveBlockRef ''t2'')])"
    by (simp add: getRefInfo_def file_defs example_defs)
  have g0: "getRefInfo testStore diskNoRefs testID = Inr (blockRefInfo [])"
    by (simp add: getRefInfo_def file_defs example_defs)
  have bp: "blockPath testID = Some (''01a1'', ''b2c3d4e5f60718293a4b5c6d7e8f90'')"
    by (simp add: blockPath_def testID_def)
  note t1 = remove_only_unreferenced [of testStore diskTwoRefs testID, THEN conjunct1, rule_format]
  note t2 = remove_only_unreferenced [of testStore diskNoRefs testID, THEN conjunct2, THEN conjunct1,
      rule_format]
  note t3 = remove_only_unreferenced [of testStore diskNoRefs testID, THEN conjunct2, THEN conjunct2,
      rule_format]
  have 1:
    "remove testStore diskTwoRefs testID = (Some (removeReferencedError testID), diskTwoRefs)"
    by (rule t1 [of "blockRefInfo [(ctx1, blockRefEntry liveBlockRef ''t1''),
                                   (ctx2, blockRefEntry liveBlockRef ''t2'')]"])
      (simp add: g2)
  from t3 g0 len_testID noFaults_testStore obtain fs' where
    r: "remove testStore diskNoRefs testID = (None, fs')" by blast
  from t2 [OF r] bp have
    a: "blockDirAt fs' (''01a1'', ''b2c3d4e5f60718293a4b5c6d7e8f90'') = None" and
    b: "fs' ''01a1'' = None \<longleftrightarrow>
          (\<forall>sd. diskNoRefs ''01a1'' = Some sd
             \<longrightarrow> (\<forall>n. n \<noteq> ''b2c3d4e5f60718293a4b5c6d7e8f90'' \<longrightarrow> sd n = None))"
    by auto
  have "\<forall>sd. diskNoRefs ''01a1'' = Some sd
          \<longrightarrow> (\<forall>n. n \<noteq> ''b2c3d4e5f60718293a4b5c6d7e8f90'' \<longrightarrow> sd n = None)"
    by (auto simp: diskNoRefs_def)
  with b have c: "fs' ''01a1'' = None" by blast
  from r a c have "\<exists>fs'. remove testStore diskNoRefs testID = (None, fs') \<and>
          blockDirAt fs' (''01a1'', ''b2c3d4e5f60718293a4b5c6d7e8f90'') = None \<and>
          fs' ''01a1'' = None" by blast
  with 1 g2 g0 len_testID noFaults_testStore show ?thesis by simp
qed

section \<open>Putting a block\<close>









lemma putFiles_success:
  assumes "putFiles s fs bid buf serverHalf = (None, fs')"
  shows "fileOf dataFile fs' bid = Some buf \<and>
         (\<exists>data. MarshalBinary s serverHalf = Inr data \<and> fileOf kshFile fs' bid = Some data)"
proof -
  from assms obtain fs1 fs2 data where
    w2: "WriteFile s opWriteData (\<lambda>d. d\<lparr>dataFile := Some buf\<rparr>) fs1 bid = (None, fs2)" and
    m: "MarshalBinary s serverHalf = Inr data" and
    w3: "WriteFile s opWriteKsh (\<lambda>d. d\<lparr>kshFile := Some data\<rparr>) fs2 bid = (None, fs')"
    by (auto simp: putFiles_def split: prod.splits option.splits sum.splits)
  from WriteFile_success [OF w2] obtain p d where
    p: "blockPath bid = Some p" and fs2: "fs2 = setBlockDir fs1 p (d\<lparr>dataFile := Some buf\<rparr>)"
    by blast
  from WriteFile_success [OF w3] p fs2 have
    "fs' = setBlockDir fs2 p (d\<lparr>dataFile := Some buf, kshFile := Some data\<rparr>)"
    by (auto simp: blockDirAt_setBlockDir)
  with p m show ?thesis by (simp add: fileOf_setBlockDir)
qed

lemma putFiles_ok:
  assumes p: "blockPath bid = Some p" and nf: "noFaults s"
    and m: "MarshalBinary s serverHalf = Inr data"
  shows "\<exists>fs'. putFiles s fs bid buf serverHalf = (None, fs') \<and> blockDirAt fs' p \<noteq> None"
proof -
  from nf have n: "\<And>opn. \<not> ioFails s opn" by (simp add: noFaults_def)
  show ?thesis
    by (simp add: putFiles_def makeDir_ok [OF p n n] WriteFile_ok [OF p n] blockDirAt_setBlockDir m)
qed

lemma getDataWithContext_Inr:
  "getDataWithContext s fs bid bctx = Inr r \<Longrightarrow>
   hasContext s fs bid bctx = Inr True \<and> getData s fs bid = Inr r"
  by (auto simp: getDataWithContext_def split: sum.splits if_splits)


lemma validateBlockPut_None:
  "validateBlockPut s bid bctx buf = None \<Longrightarrow> MakePermanentBlockID s buf = Inr bid"
  by (auto simp: validateBlockPut_def split: sum.splits if_splits)

text \<open>The example disks are the ones the operations produce.\<close>

lemma put_empty_store:
  "put testStore Map.empty testID ctx1 [1, 2, 3, 4] half1 ''t1'' = (None, diskPut1)"
  by (simp add: store_defs file_defs example_defs)

lemma addReference_diskPut1:
  "addReference testStore diskPut1 testID ctx2 ''t2'' = (None, diskTwoRefs)"
  by (simp add: store_defs file_defs example_defs)

lemma removeReferences_diskTwoRefs:
  "removeReferences testStore diskTwoRefs testID [ctx1, ctx2] [] = (Inr 0, diskNoRefs)"
  by (simp add: removeReferences_def blockRefMap_remove_def store_defs file_defs example_defs)

lemma put_fresh_succeeds:
  assumes len: "34 \<le> length bid" and nf: "noFaults s"
    and h: "MakePermanentBlockID s buf = Inr bid"
    and m: "MarshalBinary s serverHalf = Inr data"
    and g: "getDataWithContext s fs bid bctx = Inl (blockNonExistentError bid)"
  shows "\<exists>fs1. put s fs bid bctx buf serverHalf tag = (None, fs1)"
proof -
  from len obtain p where p: "blockPath bid = Some p" using blockPath_Some by blast
  from nf have n: "\<And>opn. \<not> ioFails s opn" by (simp add: noFaults_def)
  from putFiles_ok [OF p nf m] obtain fs' d where
    pf: "putFiles s fs bid buf serverHalf = (None, fs')" and d: "blockDirAt fs' p = Some d"
    by blast
  show ?thesis
    by (simp add: put_def validateBlockPut_def h g pf addRefs_one_ok [OF p n n d])
qed

lemma put_again:
  assumes first: "put s fs bid bctx buf serverHalf tag = (None, fs1)"
    and rt: "\<forall>data. MarshalBinary s serverHalf = Inr data \<longrightarrow> UnmarshalBinary s data = Inr serverHalf"
    and rd: "\<not> ioFails s opReadData" and rk: "\<not> ioFails s opReadKsh"
  shows "put s fs1 bid bctx buf serverHalf tag = (None, fs1)"
proof -
  from first have v: "validateBlockPut s bid bctx buf = None"
    by (auto simp: put_def split: option.splits)
  have "\<exists>fs0 d0. addRefs s fs0 bid [bctx] liveBlockRef tag = (None, fs1) \<and>
                  getData s fs0 bid = Inr (d0, serverHalf)"
  proof (cases "getDataWithContext s fs bid bctx")
    case (Inr r)
    with first v have "snd r = serverHalf" and "addRefs s fs bid [bctx] liveBlockRef tag = (None, fs1)"
      by (auto simp: put_def split: prod.splits if_splits)
    with getDataWithContext_Inr [OF Inr] show ?thesis by (cases r) auto
  next
    case (Inl err)
    with first v obtain fs' where
      pf: "putFiles s fs bid buf serverHalf = (None, fs')" and
      ar: "addRefs s fs' bid [bctx] liveBlockRef tag = (None, fs1)"
      by (auto simp: put_def split: prod.splits if_splits option.splits)
    from putFiles_success [OF pf] obtain data where
      fd: "fileOf dataFile fs' bid = Some buf" and
      m: "MarshalBinary s serverHalf = Inr data" and
      fk: "fileOf kshFile fs' bid = Some data"
      by blast
    from fd have len: "34 \<le> length bid"
      by (auto simp: fileOf_def blockPath_def split: option.splits if_splits)
    from rt m have "UnmarshalBinary s data = Inr serverHalf" by simp
    with fd fk validateBlockPut_None [OF v] have "getData s fs' bid = Inr (buf, serverHalf)"
      by (simp add: getData_def ReadFile_no_fault [OF len rd] ReadFile_no_fault [OF len rk])
    with ar show ?thesis by blast
  qed
  then obtain fs0 d0 where
    ar: "addRefs s fs0 bid [bctx] liveBlockRef tag = (None, fs1)" and
    gd: "getData s fs0 bid = Inr (d0, serverHalf)"
    by blast
  have "getData s fs1 bid = getData s fs0 bid"
    by (rule getData_cong) (rule addRefs_keeps [OF ar], simp)+
  with gd addRefs_one_hasContext [OF ar] have
    "getDataWithContext s fs1 bid bctx = Inr (d0, serverHalf)"
    by (simp add: getDataWithContext_def)
  with v addRefs_one_idem [OF ar] show ?thesis by (simp add: put_def)
qed

text \<open>
  Claim C4. Given that marshalling the server half and unmarshalling it again gives it
  back, and that reading \<^verbatim>\<open>data\<close> and \<^verbatim>\<open>ksh\<close> does not fail: whenever \<^verbatim>\<open>put\<close>
  succeeds, the same \<^verbatim>\<open>put\<close> again succeeds and leaves the disk exactly as the first
  left it. The first \<^verbatim>\<open>put\<close> does succeed on a store without I/O failures when the
  buffer hashes to the ID and the block is not yet readable through the context.
\<close>

theorem put_idempotent:
  assumes "\<forall>data. MarshalBinary s serverHalf = Inr data \<longrightarrow> UnmarshalBinary s data = Inr serverHalf"
    and "\<not> ioFails s opReadData" and "\<not> ioFails s opReadKsh"
  shows "(\<forall>fs1. put s fs bid bctx buf serverHalf tag = (None, fs1)
            \<longrightarrow> put s fs1 bid bctx buf serverHalf tag = (None, fs1)) \<and>
         (34 \<le> length bid \<and> noFaults s \<and> MakePermanentBlockID s buf = Inr bid \<and>
          (\<exists>data. MarshalBinary s serverHalf = Inr data) \<and>
          getDataWithContext s fs bid bctx = Inl (blockNonExistentError bid)
            \<longrightarrow> (\<exists>fs1. put s fs bid bctx buf serverHalf tag = (None, fs1)))"
proof (intro conjI allI impI)
  fix fs1
  assume "put s fs bid bctx buf serverHalf tag = (None, fs1)"
  from put_again [OF this assms] show "put s fs1 bid bctx buf serverHalf tag = (None, fs1)" .
next
  assume a: "34 \<le> length bid \<and> noFaults s \<and> MakePermanentBlockID s buf = Inr bid \<and>
          (\<exists>data. MarshalBinary s serverHalf = Inr data) \<and>
          getDataWithContext s fs bid bctx = Inl (blockNonExistentError bid)"
  then obtain data where "MarshalBinary s serverHalf = Inr data" by blast
  with a show "\<exists>fs1. put s fs bid bctx buf serverHalf tag = (None, fs1)"
    by (intro put_fresh_succeeds) simp_all
qed

theorem put_idempotent_witness:
  "MarshalBinary testStore half1 = Inr [7, 7] \<and> UnmarshalBinary testStore [7, 7] = Inr half1 \<and>
   \<not> ioFails testStore opReadData \<and> \<not> ioFails testStore opReadKsh \<and>
   34 \<le> length testID \<and> noFaults testStore \<and>
   MakePermanentBlockID testStore [1, 2, 3, 4] = Inr testID \<and>
   getDataWithContext testStore Map.empty testID ctx1 = Inl (blockNonExistentError testID) \<and>
   put testStore Map.empty testID ctx1 [1, 2, 3, 4] half1 ''t1'' = (None, diskPut1) \<and>
   put testStore diskPut1 testID ctx1 [1, 2, 3, 4] half1 ''t1'' = (None, diskPut1)"
proof -
  have rt: "\<forall>data. MarshalBinary testStore half1 = Inr data \<longrightarrow> UnmarshalBinary testStore data = Inr half1"
    by (auto simp: testStore_def half1_def)
  have b: "\<not> ioFails testStore opReadData" and c: "\<not> ioFails testStore opReadKsh"
    by (simp_all add: testStore_def)
  have h: "MakePermanentBlockID testStore [1, 2, 3, 4] = Inr testID"
    and m: "MarshalBinary testStore half1 = Inr [7, 7]"
    and u: "UnmarshalBinary testStore [7, 7] = Inr half1"
    and g: "getDataWithContext testStore Map.empty testID ctx1 = Inl (blockNonExistentError testID)"
    by (simp_all add: store_defs file_defs example_defs)
  note t = put_idempotent [OF rt b c, of Map.empty testID ctx1 "[1, 2, 3, 4]" "''t1''"]
  from t len_testID noFaults_testStore h m g obtain fs1 where
    p1: "put testStore Map.empty testID ctx1 [1, 2, 3, 4] half1 ''t1'' = (None, fs1)"
    by blast
  with put_empty_store have fs1: "fs1 = diskPut1" by simp
  from t [THEN conjunct1, rule_format, OF p1] fs1 have
    "put testStore diskPut1 testID ctx1 [1, 2, 3, 4] half1 ''t1'' = (None, diskPut1)" by simp
  with b c len_testID noFaults_testStore h m u g put_empty_store show ?thesis by simp
qed







section \<open>The reporter\<close>



end
